theory Spec2Isabelle
  imports Complex_Main
begin

section \<open>Youtube-Downloader: the job registry, the download worker and the HTTP handlers\<close>

text \<open>
  A shallow embedding of \<^verbatim>\<open>src/app.py\<close>. The module-level dictionary
  \<^verbatim>\<open>download_progress\<close> is a map from download ids to job records, threaded through
  every function that reads or writes it. Exceptions are values. The extraction library
  (yt-dlp), the clock and Python's \<^verbatim>\<open>float()\<close> are inputs of the model.

  Python floats are modelled by exact rationals: rounding error, infinities and
  \<^verbatim>\<open>nan\<close> are outside the model.
\<close>

subsection \<open>Python values: decimal strings, truncation, rounding, base names\<close>

text \<open>\<^verbatim>\<open>str(n)\<close> for an integer \<open>n\<close>: its decimal digits, with a minus sign when negative.\<close>

fun str_nat :: "nat \<Rightarrow> string" where
  "str_nat n =
     (if n < 10 then [''0123456789'' ! n]
      else str_nat (n div 10) @ [''0123456789'' ! (n mod 10)])"

declare str_nat.simps [simp del]

definition str_int :: "int \<Rightarrow> string" where
  "str_int i = (if i < 0 then CHR ''-'' # str_nat (nat (- i)) else str_nat (nat i))"

text \<open>\<^verbatim>\<open>int(x)\<close> for a float \<open>x\<close>: truncation towards zero.\<close>

definition py_int :: "rat \<Rightarrow> int" where
  "py_int x = (if 0 \<le> x then \<lfloor>x\<rfloor> else \<lceil>x\<rceil>)"

text \<open>
  \<^verbatim>\<open>round(x, 1)\<close>: the nearest multiple of one tenth, an exact tie going to the even
  tenth.
\<close>

definition py_round1 :: "rat \<Rightarrow> rat" where
  "py_round1 x =
     (let y = x * 10; f = \<lfloor>y\<rfloor>; d = y - of_int f
      in of_int (if d < 1 / 2 then f
                 else if 1 / 2 < d then f + 1
                 else if even f then f else f + 1) / 10)"

text \<open>\<^verbatim>\<open>os.path.basename(p)\<close> (POSIX): what follows the last slash of \<open>p\<close>.\<close>

definition basename :: "string \<Rightarrow> string" where
  "basename p = rev (takeWhile (\<lambda>c. c \<noteq> CHR ''/'') (rev p))"

text \<open>\<^verbatim>\<open>s.replace('%', '')\<close>.\<close>

definition strip_percent :: "string \<Rightarrow> string" where
  "strip_percent s = filter (\<lambda>c. c \<noteq> CHR ''%'') s"

subsection \<open>Exceptions\<close>

text \<open>
  The exceptions the worker can meet: a \<^verbatim>\<open>KeyError\<close> of a dictionary lookup
  (\<^verbatim>\<open>str(e)\<close> is the quoted key) and an exception of the extraction library with its
  message. Both are subclasses of \<^verbatim>\<open>Exception\<close>, which is what the worker's handler
  catches; an exit that is not one (\<^verbatim>\<open>KeyboardInterrupt\<close>, \<^verbatim>\<open>SystemExit\<close>) is outside
  the model.
\<close>

datatype exn = KeyError string | CollabError string

fun str_exn :: "exn \<Rightarrow> string" where
  "str_exn (KeyError k) = CHR 0x27 # k @ [CHR 0x27]"
| "str_exn (CollabError m) = m"

subsection \<open>The job registry\<close>

text \<open>
  One entry of \<^verbatim>\<open>download_progress\<close>: the dictionary with keys \<open>status\<close>,
  \<open>progress\<close>, \<open>filename\<close> and, once an error was recorded, \<open>error\<close>
  (\<open>None\<close> while that key is absent).
\<close>

record job =
  status :: string
  progress :: rat
  filename :: string
  error :: "string option"

type_synonym registry = "string \<rightharpoonup> job"

text \<open>
  \<^verbatim>\<open>download_progress[download_id][key] = value\<close>: a \<^verbatim>\<open>KeyError\<close> when the id is
  not in the registry.
\<close>

definition update_job :: "registry \<Rightarrow> string \<Rightarrow> (job \<Rightarrow> job) \<Rightarrow> registry \<times> exn option" where
  "update_job reg download_id f =
     (case reg download_id of
        None \<Rightarrow> (reg, Some (KeyError download_id))
      | Some j \<Rightarrow> (reg(download_id \<mapsto> f j), None))"

subsection \<open>The quality selector (lines 40 to 45)\<close>

definition format_selector :: "string \<Rightarrow> string" where
  "format_selector quality =
     (if quality = ''best'' then ''best[ext=mp4]''
      else if quality = ''worst'' then ''worst[ext=mp4]''
      else ''best[height<='' @ quality @ ''][ext=mp4]'')"

subsection \<open>Progress events and the progress hook (lines 23 to 37)\<close>

text \<open>
  The dictionary \<open>d\<close> that the extraction library hands to a progress hook. A field is
  \<open>None\<close> when its key is absent; \<open>d_total_bytes\<close> is also \<open>None\<close> when the library
  reports the total as unknown (Python's \<^verbatim>\<open>None\<close>).
\<close>

record event =
  d_status :: string
  d_downloaded_bytes :: "int option"
  d_total_bytes :: "int option"
  d_percent_str :: "string option"
  d_filename :: "string option"

text \<open>
  \<^verbatim>\<open>progress_hook(d)\<close>, closed over \<open>download_id\<close>. \<open>pfloat\<close> is Python's
  \<^verbatim>\<open>float()\<close> on strings: \<open>None\<close> where it raises \<^verbatim>\<open>ValueError\<close>. The result
  is the registry as the hook leaves it and the exception it raises, if any.

  The test \<^verbatim>\<open>'total_bytes' in d and d['total_bytes']\<close> holds for a total that is
  present and not zero. The bare \<^verbatim>\<open>except: pass\<close> of the percentage branch swallows
  every exception of the assignment, the registry's \<^verbatim>\<open>KeyError\<close> included. In the
  \<open>finished\<close> branch the three assignments run in order, so the first two are done
  when \<^verbatim>\<open>d['filename']\<close> raises.
\<close>

definition progress_hook ::
  "(string \<Rightarrow> rat option) \<Rightarrow> registry \<Rightarrow> string \<Rightarrow> event \<Rightarrow> registry \<times> exn option" where
  "progress_hook pfloat reg download_id d =
     (if d_status d = ''downloading'' then
        (if d_total_bytes d \<noteq> None \<and> d_total_bytes d \<noteq> Some 0 then
           (case d_downloaded_bytes d of
              None \<Rightarrow> (reg, Some (KeyError ''downloaded_bytes''))
            | Some n \<Rightarrow>
                (let percent = (of_int n / of_int (the (d_total_bytes d))) * 100
                 in update_job reg download_id (\<lambda>j. j\<lparr>progress := py_round1 percent\<rparr>)))
         else
           (case d_percent_str d of
              None \<Rightarrow> (reg, None)
            | Some s \<Rightarrow>
                (case pfloat (strip_percent s) of
                   None \<Rightarrow> (reg, None)
                 | Some p \<Rightarrow> (fst (update_job reg download_id (\<lambda>j. j\<lparr>progress := p\<rparr>)), None))))
      else if d_status d = ''finished'' then
        (case update_job reg download_id (\<lambda>j. j\<lparr>status := ''completed''\<rparr>) of
           (reg1, Some e) \<Rightarrow> (reg1, Some e)
         | (reg1, None) \<Rightarrow>
             (case update_job reg1 download_id (\<lambda>j. j\<lparr>progress := 100\<rparr>) of
                (reg2, Some e) \<Rightarrow> (reg2, Some e)
              | (reg2, None) \<Rightarrow>
                  (case d_filename d of
                     None \<Rightarrow> (reg2, Some (KeyError ''filename''))
                   | Some p \<Rightarrow> update_job reg2 download_id (\<lambda>j. j\<lparr>filename := basename p\<rparr>))))
      else (reg, None))"

subsection \<open>The download worker (lines 18 to 58)\<close>

text \<open>
  The extraction library's \<^verbatim>\<open>download\<close>, for a URL and a format selector: the events
  it passes to the progress hook, in order, and then the exception it raises itself, if
  any. An exception of the hook leaves the library at once. A call that never returns
  is outside the model.
\<close>

type_synonym collaborator = "string \<Rightarrow> string \<Rightarrow> event list \<times> exn option"

fun run_hooks ::
  "(string \<Rightarrow> rat option) \<Rightarrow> registry \<Rightarrow> string \<Rightarrow> event list \<Rightarrow> registry \<times> exn option" where
  "run_hooks pfloat reg download_id [] = (reg, None)"
| "run_hooks pfloat reg download_id (d # ds) =
     (case progress_hook pfloat reg download_id d of
        (reg', Some e) \<Rightarrow> (reg', Some e)
      | (reg', None) \<Rightarrow> run_hooks pfloat reg' download_id ds)"

text \<open>Line 21: the worker's first statement stores a fresh record under the id.\<close>

definition start_job :: "registry \<Rightarrow> string \<Rightarrow> registry" where
  "start_job reg download_id =
     reg(download_id \<mapsto> \<lparr>status = ''downloading'', progress = 0, filename = [], error = None\<rparr>)"

text \<open>The body of the \<^verbatim>\<open>try\<close> block: the registry it leaves and the exception it raises.\<close>

definition download_body ::
  "(string \<Rightarrow> rat option) \<Rightarrow> collaborator \<Rightarrow> registry \<Rightarrow> string \<Rightarrow> string \<Rightarrow> string
     \<Rightarrow> registry \<times> exn option" where
  "download_body pfloat ydl reg url quality download_id =
     (let reg1 = start_job reg download_id;
          (events, raised) = ydl url (format_selector quality)
      in case run_hooks pfloat reg1 download_id events of
           (reg2, Some e) \<Rightarrow> (reg2, Some e)
         | (reg2, None) \<Rightarrow> (reg2, raised))"

text \<open>Lines 56 to 58: the handler of \<^verbatim>\<open>except Exception as e\<close>.\<close>

definition record_error :: "registry \<Rightarrow> string \<Rightarrow> exn \<Rightarrow> registry \<times> exn option" where
  "record_error reg download_id e =
     (case update_job reg download_id (\<lambda>j. j\<lparr>status := ''error''\<rparr>) of
        (reg1, Some e') \<Rightarrow> (reg1, Some e')
      | (reg1, None) \<Rightarrow> update_job reg1 download_id (\<lambda>j. j\<lparr>error := Some (str_exn e)\<rparr>))"

text \<open>
  \<^verbatim>\<open>download_video(url, quality, download_id)\<close>: the registry when the worker ends and
  the exception that leaves the worker, if any.
\<close>

definition download_video ::
  "(string \<Rightarrow> rat option) \<Rightarrow> collaborator \<Rightarrow> registry \<Rightarrow> string \<Rightarrow> string \<Rightarrow> string
     \<Rightarrow> registry \<times> exn option" where
  "download_video pfloat ydl reg url quality download_id =
     (case download_body pfloat ydl reg url quality download_id of
        (reg', None) \<Rightarrow> (reg', None)
      | (reg', Some e) \<Rightarrow> record_error reg' download_id e)"

subsection \<open>The HTTP handlers\<close>

text \<open>
  The server's state: the registry and the worker threads that were started and have not
  run yet, each with its arguments \<open>(url, quality, download_id)\<close>.
\<close>

record server =
  download_progress :: registry
  threads :: "(string \<times> string \<times> string) list"

text \<open>A response: its body and its HTTP status code.\<close>

datatype body =
    Error_Body string
  | Download_Id string
  | Job_Json job
  | Status_Only string
  | Attachment string string

type_synonym response = "body \<times> nat"

text \<open>
  \<^verbatim>\<open>download()\<close>, for a request whose JSON body \<open>data\<close> is an object with string
  values, at clock reading \<open>now\<close> (\<^verbatim>\<open>time.time()\<close>, in seconds). \<^verbatim>\<open>not url\<close>
  holds for an absent and for an empty URL.
\<close>

definition download :: "server \<Rightarrow> (string \<rightharpoonup> string) \<Rightarrow> rat \<Rightarrow> response \<times> server" where
  "download st data now =
     (let url = data ''url'';
          quality = (case data ''quality'' of None \<Rightarrow> ''best'' | Some q \<Rightarrow> q)
      in if url = None \<or> url = Some [] then ((Error_Body ''URL is required'', 400), st)
         else
           (let download_id = str_int (py_int (now * 1000))
            in ((Download_Id download_id, 200),
                st\<lparr>threads := threads st @ [(the url, quality, download_id)]\<rparr>)))"

text \<open>\<^verbatim>\<open>get_progress(download_id)\<close>.\<close>

definition get_progress :: "server \<Rightarrow> string \<Rightarrow> response \<times> server" where
  "get_progress st download_id =
     ((case download_progress st download_id of
         None \<Rightarrow> Status_Only ''not_found''
       | Some j \<Rightarrow> Job_Json j, 200), st)"

text \<open>
  \<^verbatim>\<open>download_file(download_id)\<close>; \<open>exists\<close> is \<^verbatim>\<open>os.path.exists\<close> and \<open>folder\<close>
  is \<^verbatim>\<open>DOWNLOAD_FOLDER\<close>, a path that does not end in a slash, so that
  \<^verbatim>\<open>os.path.join\<close> puts one between it and the file name.
\<close>

definition download_file ::
  "(string \<Rightarrow> bool) \<Rightarrow> string \<Rightarrow> server \<Rightarrow> string \<Rightarrow> response \<times> server" where
  "download_file exists folder st download_id =
     (case download_progress st download_id of
        None \<Rightarrow> ((Error_Body ''File not ready'', 404), st)
      | Some j \<Rightarrow>
          if status j \<noteq> ''completed'' then ((Error_Body ''File not ready'', 404), st)
          else if filename j = [] then ((Error_Body ''File not found'', 404), st)
          else
            (let filepath = folder @ ''/'' @ filename j
             in if \<not> exists filepath then ((Error_Body ''File not found'', 404), st)
                else ((Attachment filepath (filename j), 200), st)))"


text \<open>The requests a client can send, and the server's state after one.\<close>

datatype request =
    Post_Download "string \<rightharpoonup> string" rat
  | Get_Progress string
  | Get_Download_File string

fun handle :: "(string \<Rightarrow> bool) \<Rightarrow> string \<Rightarrow> server \<Rightarrow> request \<Rightarrow> response \<times> server" where
  "handle exists folder st (Post_Download data now) = download st data now"
| "handle exists folder st (Get_Progress download_id) = get_progress st download_id"
| "handle exists folder st (Get_Download_File download_id) =
     download_file exists folder st download_id"

subsection \<open>The format catalogue of \<^verbatim>\<open>get_video_info\<close> (lines 80 to 95)\<close>

text \<open>
  A stream descriptor of the extraction library: \<open>f_ext\<close> and \<open>f_height\<close> are what
  \<^verbatim>\<open>f.get('ext')\<close> and \<^verbatim>\<open>f.get('height')\<close> return, \<open>None\<close> for an absent key
  and for Python's \<^verbatim>\<open>None\<close>.
\<close>

record descriptor =
  f_ext :: "string option"
  f_height :: "int option"

record entry =
  height :: int
  quality :: string

text \<open>
  The loop over \<^verbatim>\<open>info.get('formats', [])\<close>, with its two accumulators. The test
  \<^verbatim>\<open>f.get('height')\<close> holds for a height that is present and not zero.
\<close>

fun collect_formats :: "descriptor list \<Rightarrow> entry list \<Rightarrow> int set \<Rightarrow> entry list" where
  "collect_formats [] formats seen_heights = formats"
| "collect_formats (f # fs) formats seen_heights =
     (if f_ext f = Some ''mp4'' \<and> f_height f \<noteq> None \<and> f_height f \<noteq> Some 0 then
        (let h = the (f_height f)
         in if h \<notin> seen_heights then
              collect_formats fs
                (formats @ [\<lparr>height = h, quality = str_int h @ ''p''\<rparr>]) (insert h seen_heights)
            else collect_formats fs formats seen_heights)
      else collect_formats fs formats seen_heights)"

text \<open>
  \<^verbatim>\<open>formats.sort(key=lambda x: x['height'], reverse=True)\<close>: a stable sort, greatest
  height first.
\<close>

definition get_formats :: "descriptor list \<Rightarrow> entry list" where
  "get_formats fs = sort_key (\<lambda>x. - height x) (collect_formats fs [] {})"

text \<open>The server's state after a list of requests, with no worker running in between.\<close>

fun serve :: "(string \<Rightarrow> bool) \<Rightarrow> string \<Rightarrow> server \<Rightarrow> request list \<Rightarrow> server" where
  "serve exists folder st [] = st"
| "serve exists folder st (r # rs) = serve exists folder (snd (handle exists folder st r)) rs"

subsection \<open>Auxiliary definitions for the statements\<close>

text \<open>
  A fragment of \<^verbatim>\<open>float()\<close>, to instantiate \<open>pfloat\<close> in closed examples: blanks,
  digits, optionally a point and more digits, blanks. It is \<open>None\<close> on every other
  string, also on the forms \<^verbatim>\<open>float()\<close> accepts beyond these (a sign, an exponent,
  \<^verbatim>\<open>inf\<close>, \<^verbatim>\<open>nan\<close>, underscores, a missing integer or fractional part); no theorem
  about all parsers depends on it.
\<close>

definition digit_of :: "char \<Rightarrow> nat option" where
  "digit_of c =
     map_of [(CHR ''0'', 0), (CHR ''1'', 1), (CHR ''2'', 2), (CHR ''3'', 3), (CHR ''4'', 4),
             (CHR ''5'', 5), (CHR ''6'', 6), (CHR ''7'', 7), (CHR ''8'', 8), (CHR ''9'', 9)] c"

fun digits_value :: "nat \<Rightarrow> string \<Rightarrow> nat option" where
  "digits_value acc [] = Some acc"
| "digits_value acc (c # cs) =
     (case digit_of c of None \<Rightarrow> None | Some v \<Rightarrow> digits_value (10 * acc + v) cs)"

definition float_decimal :: "string \<Rightarrow> rat option" where
  "float_decimal s =
     (let t = rev (dropWhile (\<lambda>c. c = CHR '' '') (rev (dropWhile (\<lambda>c. c = CHR '' '') s)));
          ip = takeWhile (\<lambda>c. c \<noteq> CHR ''.'') t;
          fp = drop (Suc (length ip)) t
      in if ip = [] \<or> (ip \<noteq> t \<and> fp = []) then None
         else (case digits_value 0 ip of
                 None \<Rightarrow> None
               | Some a \<Rightarrow>
                   (case digits_value 0 fp of
                      None \<Rightarrow> None
                    | Some b \<Rightarrow> Some (of_nat a + of_nat b / 10 ^ length fp))))"

text \<open>
  An event whose percentage, as the hook computes it, is between 0 and 100: the ratio of
  its byte counts is between 0 and 1 when the hook divides them, and its percentage
  string is parsed to a value between 0 and 100 when the hook parses it.
\<close>

definition event_in_range :: "(string \<Rightarrow> rat option) \<Rightarrow> event \<Rightarrow> bool" where
  "event_in_range pfloat d =
     (if d_status d \<noteq> ''downloading'' then True
      else if d_total_bytes d \<noteq> None \<and> d_total_bytes d \<noteq> Some 0 then
        (case d_downloaded_bytes d of
           None \<Rightarrow> True
         | Some n \<Rightarrow>
             (0 :: rat) \<le> of_int n / of_int (the (d_total_bytes d))
             \<and> of_int n / of_int (the (d_total_bytes d)) \<le> (1 :: rat))
      else
        (case d_percent_str d of
           None \<Rightarrow> True
         | Some s \<Rightarrow>
             (case pfloat (strip_percent s) of None \<Rightarrow> True | Some p \<Rightarrow> 0 \<le> p \<and> p \<le> 100)))"

text \<open>The job under an id exists and its progress is between 0 and 100.\<close>

definition job_in_range :: "registry \<Rightarrow> string \<Rightarrow> bool" where
  "job_in_range reg download_id =
     (case reg download_id of None \<Rightarrow> False | Some j \<Rightarrow> 0 \<le> progress j \<and> progress j \<le> 100)"

text \<open>
  The format catalogue in the specification's words: keep the descriptors of the target
  container whose height is \<open>present\<close>, drop every height after its first occurrence,
  label each height, greatest height first.
\<close>

fun dedup_first :: "int list \<Rightarrow> int list" where
  "dedup_first [] = []"
| "dedup_first (h # hs) = h # dedup_first (filter (\<lambda>x. x \<noteq> h) hs)"

definition catalog_spec :: "(int option \<Rightarrow> bool) \<Rightarrow> descriptor list \<Rightarrow> entry list" where
  "catalog_spec present fs =
     map (\<lambda>h. \<lparr>height = h, quality = str_int h @ ''p''\<rparr>)
       (rev (sort (dedup_first
          (map (\<lambda>f. the (f_height f))
             (filter (\<lambda>f. f_ext f = Some ''mp4'' \<and> present (f_height f)) fs)))))"

section \<open>Properties\<close>

subsection \<open>Evaluation rules and facts about the registry\<close>

lemma str_nat_small: "n < 10 \<Longrightarrow> str_nat n = [''0123456789'' ! n]"
  by (subst str_nat.simps) simp

lemma str_nat_large:
  "\<not> n < 10 \<Longrightarrow> str_nat n = str_nat (n div 10) @ [''0123456789'' ! (n mod 10)]"
  by (subst str_nat.simps) simp

lemma floor_rat_numeral_div:
  "\<lfloor>(numeral a :: rat) / numeral b\<rfloor> = numeral a div numeral b"
  using floor_divide_of_int_eq [of "numeral a" "numeral b", where ?'a = rat] by simp

lemmas str_int_eval =
  str_int_def py_int_def str_nat_small str_nat_large floor_rat_numeral_div

lemma update_job_Some:
  "reg download_id = Some j \<Longrightarrow>
   update_job reg download_id f = (reg(download_id \<mapsto> f j), None)"
  by (simp add: update_job_def)

lemma update_job_None:
  "reg download_id = None \<Longrightarrow>
   update_job reg download_id f = (reg, Some (KeyError download_id))"
  by (simp add: update_job_def)

text \<open>No hook call removes the worker's record, so the error handler always finds it.\<close>

lemma progress_hook_present:
  assumes "reg download_id = Some j"
  shows "\<exists>j'. fst (progress_hook pfloat reg download_id d) download_id = Some j'"
  using assms
  by (auto simp: progress_hook_def update_job_Some Let_def split: option.splits)

lemma run_hooks_present:
  "reg download_id = Some j \<Longrightarrow>
   \<exists>j'. fst (run_hooks pfloat reg download_id ds) download_id = Some j'"
proof (induction ds arbitrary: reg j)
  case Nil
  then show ?case by simp
next
  case (Cons d ds)
  obtain reg' r where h: "progress_hook pfloat reg download_id d = (reg', r)"
    by (cases "progress_hook pfloat reg download_id d")
  from progress_hook_present [where reg = reg and download_id = download_id and j = j
      and pfloat = pfloat and d = d] Cons.prems h
  obtain j' where j': "reg' download_id = Some j'" by auto
  have "\<exists>j''. fst (run_hooks pfloat reg' download_id ds) download_id = Some j''"
    using j' by (rule Cons.IH)
  with h j' show ?case by (cases r) auto
qed

lemma start_job_present:
  "start_job reg download_id download_id
     = Some \<lparr>status = ''downloading'', progress = 0, filename = [], error = None\<rparr>"
  by (simp add: start_job_def)

lemma download_body_present:
  "\<exists>j. fst (download_body pfloat ydl reg url q download_id) download_id = Some j"
proof -
  obtain events raised where y: "ydl url (format_selector q) = (events, raised)"
    by (cases "ydl url (format_selector q)")
  have "\<exists>j'. fst (run_hooks pfloat (start_job reg download_id) download_id events) download_id
           = Some j'"
    using start_job_present by (rule run_hooks_present)
  then obtain j' where
    "fst (run_hooks pfloat (start_job reg download_id) download_id events) download_id = Some j'"
    by blast
  then show ?thesis
    by (cases "run_hooks pfloat (start_job reg download_id) download_id events")
       (auto simp: download_body_def y split: option.splits)
qed

lemma record_error_Some:
  "reg download_id = Some j \<Longrightarrow>
   record_error reg download_id e
     = (reg(download_id \<mapsto> j\<lparr>status := ''error'', error := Some (str_exn e)\<rparr>), None)"
  by (simp add: record_error_def update_job_Some)

subsection \<open>The worker's error path\<close>

text \<open>
  Claim C8. Whatever exception is raised in the worker's \<^verbatim>\<open>try\<close> block, by a progress
  hook or by the extraction library, no exception leaves \<^verbatim>\<open>download_video\<close>, and the
  job's status is then \<open>error\<close> and its error field the exception's message.
\<close>

theorem download_video_records_error:
  "snd (download_video pfloat ydl reg url q download_id) = None \<and>
   (download_body pfloat ydl reg url q download_id = (reg', Some e) \<longrightarrow>
      (\<exists>j. fst (download_video pfloat ydl reg url q download_id) download_id = Some j
          \<and> status j = ''error'' \<and> error j = Some (str_exn e)))"
proof -
  obtain r x where b: "download_body pfloat ydl reg url q download_id = (r, x)"
    by (cases "download_body pfloat ydl reg url q download_id")
  from download_body_present [of pfloat ydl reg url q download_id] b
  obtain j where j: "r download_id = Some j" by auto
  show ?thesis
    using record_error_Some [where reg = r and download_id = download_id and j = j] j
    by (cases x) (auto simp: download_video_def b)
qed

theorem download_video_records_error_witness:
  "download_body float_decimal
      (\<lambda>url format. ([], Some (CollabError ''Requested format is not available'')))
      Map.empty ''https://example.com/v'' ''1080'' ''1700000000000''
     = (start_job Map.empty ''1700000000000'',
        Some (CollabError ''Requested format is not available'')) \<and>
   (\<exists>j. fst (download_video float_decimal
               (\<lambda>url format. ([], Some (CollabError ''Requested format is not available'')))
               Map.empty ''https://example.com/v'' ''1080'' ''1700000000000'') ''1700000000000''
           = Some j
       \<and> status j = ''error'' \<and> error j = Some ''Requested format is not available'')"
proof -
  have b: "download_body float_decimal
      (\<lambda>url format. ([], Some (CollabError ''Requested format is not available'')))
      Map.empty ''https://example.com/v'' ''1080'' ''1700000000000''
     = (start_job Map.empty ''1700000000000'',
        Some (CollabError ''Requested format is not available''))"
    by (simp add: download_body_def)
  with download_video_records_error [where pfloat = float_decimal
      and ydl = "\<lambda>url format. ([], Some (CollabError ''Requested format is not available''))"
      and reg = Map.empty and url = "''https://example.com/v''" and q = "''1080''"
      and download_id = "''1700000000000''" and reg' = "start_job Map.empty ''1700000000000''"
      and e = "CollabError ''Requested format is not available''"]
  show ?thesis by simp
qed

text \<open>
  Claim C10. When the worker records an error, the job's record is the one the
  \<^verbatim>\<open>try\<close> block left with only its status and error fields rewritten: progress and
  filename keep their last-written values.
\<close>

theorem record_error_frame:
  "download_body pfloat ydl reg url q download_id = (reg', Some e) \<Longrightarrow>
   \<exists>j. reg' download_id = Some j
     \<and> fst (download_video pfloat ydl reg url q download_id)
         = reg'(download_id \<mapsto> j\<lparr>status := ''error'', error := Some (str_exn e)\<rparr>)
     \<and> map_option progress (fst (download_video pfloat ydl reg url q download_id) download_id)
         = Some (progress j)
     \<and> map_option filename (fst (download_video pfloat ydl reg url q download_id) download_id)
         = Some (filename j)"
proof -
  assume b: "download_body pfloat ydl reg url q download_id = (reg', Some e)"
  from download_body_present [of pfloat ydl reg url q download_id] b
  obtain j where j: "reg' download_id = Some j" by auto
  show ?thesis
    using record_error_Some [where reg = reg' and download_id = download_id and j = j and e = e] j
    by (simp add: download_video_def b)
qed

theorem record_error_frame_witness:
  "download_body float_decimal
      (\<lambda>url format.
         ([\<lparr>d_status = ''downloading'', d_downloaded_bytes = Some 512, d_total_bytes = Some 2048,
            d_percent_str = None, d_filename = None\<rparr>],
          Some (CollabError ''Connection reset'')))
      Map.empty ''https://example.com/v'' ''best'' ''1700000000000''
     = ([''1700000000000'' \<mapsto>
           \<lparr>status = ''downloading'', progress = 25, filename = [], error = None\<rparr>],
        Some (CollabError ''Connection reset'')) \<and>
   fst (download_video float_decimal
      (\<lambda>url format.
         ([\<lparr>d_status = ''downloading'', d_downloaded_bytes = Some 512, d_total_bytes = Some 2048,
            d_percent_str = None, d_filename = None\<rparr>],
          Some (CollabError ''Connection reset'')))
      Map.empty ''https://example.com/v'' ''best'' ''1700000000000'') ''1700000000000''
     = Some \<lparr>status = ''error'', progress = 25, filename = [],
             error = Some ''Connection reset''\<rparr>"
proof -
  have b: "download_body float_decimal
      (\<lambda>url format.
         ([\<lparr>d_status = ''downloading'', d_downloaded_bytes = Some 512, d_total_bytes = Some 2048,
            d_percent_str = None, d_filename = None\<rparr>],
          Some (CollabError ''Connection reset'')))
      Map.empty ''https://example.com/v'' ''best'' ''1700000000000''
     = ([''1700000000000'' \<mapsto>
           \<lparr>status = ''downloading'', progress = 25, filename = [], error = None\<rparr>],
        Some (CollabError ''Connection reset''))"
    by (simp add: download_body_def start_job_def progress_hook_def update_job_def
          py_round1_def Let_def)
  from record_error_frame [OF b] show ?thesis
    using b by auto
qed

subsection \<open>The progress endpoint\<close>

text \<open>
  Claim C9. For an id that is not in the registry, \<^verbatim>\<open>get_progress\<close> answers with the
  body \<^verbatim>\<open>{"status": "not_found"}\<close> and HTTP status 200, and leaves the server as it was.
\<close>

theorem get_progress_not_found:
  "download_progress st download_id = None \<Longrightarrow>
   get_progress st download_id = ((Status_Only ''not_found'', 200), st)"
  by (simp add: get_progress_def)

theorem get_progress_not_found_witness:
  "download_progress \<lparr>download_progress = Map.empty, threads = []\<rparr> ''1700000000000'' = None \<and>
   get_progress \<lparr>download_progress = Map.empty, threads = []\<rparr> ''1700000000000''
     = ((Status_Only ''not_found'', 200), \<lparr>download_progress = Map.empty, threads = []\<rparr>)"
  using get_progress_not_found
    [of "\<lparr>download_progress = Map.empty, threads = []\<rparr>" "''1700000000000''"]
  by simp

subsection \<open>The quality selector\<close>

text \<open>
  Claim C6. The token \<open>best\<close> gives \<^verbatim>\<open>best[ext=mp4]\<close>, \<open>worst\<close> gives
  \<^verbatim>\<open>worst[ext=mp4]\<close>, and every other token \<open>h\<close>, unchecked, gives
  \<^verbatim>\<open>best[height<=h][ext=mp4]\<close>; a download request without a quality field starts its
  worker with quality \<open>best\<close>; the worker hands the selector to the extraction library.
\<close>

theorem quality_selector:
  "format_selector ''best'' = ''best[ext=mp4]'' \<and>
   format_selector ''worst'' = ''worst[ext=mp4]'' \<and>
   (h \<noteq> ''best'' \<and> h \<noteq> ''worst'' \<longrightarrow>
      format_selector h = ''best[height<='' @ h @ ''][ext=mp4]'') \<and>
   (data ''quality'' = None \<and> data ''url'' = Some u \<and> u \<noteq> [] \<longrightarrow>
      threads (snd (download st data now))
        = threads st @ [(u, ''best'', str_int (py_int (now * 1000)))]) \<and>
   (ydl url (format_selector q) = ydl' url (format_selector q) \<longrightarrow>
      download_video pfloat ydl reg url q download_id
        = download_video pfloat ydl' reg url q download_id)"
  by (simp add: format_selector_def download_def download_video_def download_body_def Let_def)

theorem quality_selector_witness:
  "''720'' \<noteq> ''best'' \<and> ''720'' \<noteq> ''worst'' \<and>
   format_selector ''720'' = ''best[height<=720][ext=mp4]'' \<and>
   threads (snd (download \<lparr>download_progress = Map.empty, threads = []\<rparr>
                   [''url'' \<mapsto> ''https://example.com/v''] 1700000000))
     = [(''https://example.com/v'', ''best'', ''1700000000000'')]"
  using quality_selector [where h = "''720''" and data = "[''url'' \<mapsto> ''https://example.com/v'']"
      and u = "''https://example.com/v''" and now = 1700000000
      and st = "\<lparr>download_progress = Map.empty, threads = []\<rparr>"]
  by (simp add: str_int_eval)

subsection \<open>Download identifiers\<close>

text \<open>
  Claim C2, at an input where the code breaks it. Two download requests whose clock
  readings, 1700000000.0001 and 1700000000.0004, fall in the same millisecond are both
  answered with the download id 1700000000000.
\<close>

theorem download_id_collision:
  "fst (download \<lparr>download_progress = Map.empty, threads = []\<rparr>
          [''url'' \<mapsto> ''https://example.com/a''] (17000000000001 / 10000))
     = (Download_Id ''1700000000000'', 200) \<and>
   fst (download
          (snd (download \<lparr>download_progress = Map.empty, threads = []\<rparr>
                  [''url'' \<mapsto> ''https://example.com/a''] (17000000000001 / 10000)))
          [''url'' \<mapsto> ''https://example.com/b''] (17000000000004 / 10000))
     = (Download_Id ''1700000000000'', 200)"
  by (simp add: download_def Let_def str_int_eval)

subsection \<open>Rounding to one decimal place\<close>



lemma py_round1_range:
  assumes "0 \<le> x" "x \<le> 100"
  shows "0 \<le> py_round1 x \<and> py_round1 x \<le> 100"
proof -
  define y where "y = x * 10"
  define f where "f = \<lfloor>y\<rfloor>"
  define k where "k = (if y - of_int f < 1 / 2 then f
              else if 1 / 2 < y - of_int f then f + 1
              else if even f then f else f + 1)"
  have y: "0 \<le> y" "y \<le> 1000" using assms by (simp_all add: y_def)
  have f0: "0 \<le> f" using y unfolding f_def by simp
  have f1: "f \<le> 1000" using y unfolding f_def by (simp add: floor_le_iff)
  have fy: "of_int f \<le> y" unfolding f_def by simp
  have k: "0 \<le> k \<and> k \<le> 1000"
  proof (cases "f = 1000")
    case True
    with fy y have "y - of_int f = 0" by simp
    then have "k = f" by (simp add: k_def)
    with True show ?thesis by simp
  next
    case False
    with f1 have "f \<le> 999" by simp
    with f0 show ?thesis by (auto simp: k_def)
  qed
  have "py_round1 x = of_int k / 10"
    by (simp add: py_round1_def Let_def y_def f_def k_def)
  moreover have "(0::rat) \<le> of_int k" "(of_int k :: rat) \<le> 1000"
    using k by simp_all
  ultimately show ?thesis by simp
qed

subsection \<open>The range of the progress value\<close>

lemma progress_hook_in_range:
  assumes "job_in_range reg download_id" "event_in_range pfloat d"
  shows "job_in_range (fst (progress_hook pfloat reg download_id d)) download_id"
proof -
  from assms(1) obtain j where j: "reg download_id = Some j" "0 \<le> progress j" "progress j \<le> 100"
    by (auto simp: job_in_range_def split: option.splits)
  show ?thesis
  proof (cases "d_status d = ''downloading''")
    case True
    show ?thesis
    proof (cases "d_total_bytes d \<noteq> None \<and> d_total_bytes d \<noteq> Some 0")
      case tot: True
      show ?thesis
      proof (cases "d_downloaded_bytes d")
        case None
        with True tot assms(1) show ?thesis by (simp add: progress_hook_def)
      next
        case (Some n)
        define a :: rat where "a = of_int n / of_int (the (d_total_bytes d))"
        have "0 \<le> a" "a \<le> 1"
          using True tot Some assms(2) by (auto simp: event_in_range_def a_def)
        then have "0 \<le> a * 100" "a * 100 \<le> 100" by simp_all
        then have "0 \<le> py_round1 (a * 100) \<and> py_round1 (a * 100) \<le> 100"
          by (rule py_round1_range)
        moreover have "progress_hook pfloat reg download_id d
            = (reg(download_id \<mapsto> j\<lparr>progress := py_round1 (a * 100)\<rparr>), None)"
          using True tot Some j by (simp add: progress_hook_def update_job_def Let_def a_def)
        ultimately show ?thesis
          by (simp add: job_in_range_def)
      qed
    next
      case False
      with True assms j show ?thesis
        by (auto simp: progress_hook_def update_job_def job_in_range_def event_in_range_def
              split: option.splits)
    qed
  next
    case False
    with j show ?thesis
      by (auto simp: progress_hook_def update_job_def job_in_range_def split: option.splits)
  qed
qed

lemma run_hooks_in_range:
  "job_in_range reg download_id \<Longrightarrow> \<forall>d\<in>set ds. event_in_range pfloat d \<Longrightarrow>
   job_in_range (fst (run_hooks pfloat reg download_id ds)) download_id"
proof (induction ds arbitrary: reg)
  case Nil
  then show ?case by simp
next
  case (Cons d ds)
  obtain reg' r where h: "progress_hook pfloat reg download_id d = (reg', r)"
    by (cases "progress_hook pfloat reg download_id d")
  from progress_hook_in_range [of reg download_id pfloat d] Cons.prems h
  have "job_in_range reg' download_id" by simp
  with Cons.IH [of reg'] Cons.prems h show ?case by (cases r) auto
qed

lemma start_job_in_range: "job_in_range (start_job reg download_id) download_id"
  by (simp add: job_in_range_def start_job_def)

lemma record_error_in_range:
  "job_in_range reg download_id \<Longrightarrow> job_in_range (fst (record_error reg download_id e)) download_id"
  by (auto simp: job_in_range_def record_error_def update_job_def split: option.splits)

text \<open>
  Claim C3, as the code has it. The worker does not clamp: the progress stays between 0
  and 100 in every snapshot, that is after every prefix of the events and when the worker
  ends, provided every event is in range (the ratio of its byte counts between 0 and 1
  where the hook divides them, its parsed percentage between 0 and 100 where the hook
  parses it).
\<close>

theorem progress_in_range:
  assumes "\<forall>d\<in>set events. event_in_range pfloat d"
  shows "(\<exists>j. fst (run_hooks pfloat (start_job reg download_id) download_id (take n events))
                download_id = Some j
             \<and> 0 \<le> progress j \<and> progress j \<le> 100) \<and>
         (ydl url (format_selector q) = (events, raised) \<longrightarrow>
            (\<exists>j. fst (download_video pfloat ydl reg url q download_id) download_id = Some j
                \<and> 0 \<le> progress j \<and> progress j \<le> 100))"
proof -
  have "\<forall>d\<in>set (take n events). event_in_range pfloat d"
    using assms by (meson in_set_takeD)
  then have a: "job_in_range (fst (run_hooks pfloat (start_job reg download_id) download_id
                  (take n events))) download_id"
    using start_job_in_range run_hooks_in_range by blast
  have b: "job_in_range (fst (run_hooks pfloat (start_job reg download_id) download_id events))
             download_id"
    using start_job_in_range run_hooks_in_range assms by blast
  have c: "ydl url (format_selector q) = (events, raised) \<Longrightarrow>
           job_in_range (fst (download_video pfloat ydl reg url q download_id)) download_id"
    using b record_error_in_range
    by (cases "run_hooks pfloat (start_job reg download_id) download_id events")
       (auto simp: download_video_def download_body_def split: option.splits)
  from a c show ?thesis
    by (auto simp: job_in_range_def split: option.splits)
qed

theorem progress_in_range_witness:
  "event_in_range float_decimal
     \<lparr>d_status = ''downloading'', d_downloaded_bytes = Some 512, d_total_bytes = Some 2048,
      d_percent_str = None, d_filename = None\<rparr> \<and>
   event_in_range float_decimal
     \<lparr>d_status = ''downloading'', d_downloaded_bytes = Some 900, d_total_bytes = None,
      d_percent_str = Some '' 45.3%'', d_filename = None\<rparr> \<and>
   (\<exists>j. fst (run_hooks float_decimal (start_job Map.empty ''1700000000000'') ''1700000000000''
              (take 2 [\<lparr>d_status = ''downloading'', d_downloaded_bytes = Some 512,
                        d_total_bytes = Some 2048, d_percent_str = None, d_filename = None\<rparr>,
                       \<lparr>d_status = ''downloading'', d_downloaded_bytes = Some 900,
                        d_total_bytes = None, d_percent_str = Some '' 45.3%'',
                        d_filename = None\<rparr>])) ''1700000000000'' = Some j
       \<and> 0 \<le> progress j \<and> progress j \<le> 100)"
proof -
  have a: "event_in_range float_decimal
     \<lparr>d_status = ''downloading'', d_downloaded_bytes = Some 512, d_total_bytes = Some 2048,
      d_percent_str = None, d_filename = None\<rparr>"
    by (simp add: event_in_range_def)
  have b: "event_in_range float_decimal
     \<lparr>d_status = ''downloading'', d_downloaded_bytes = Some 900, d_total_bytes = None,
      d_percent_str = Some '' 45.3%'', d_filename = None\<rparr>"
    by (simp add: event_in_range_def float_decimal_def strip_percent_def digit_of_def Let_def)
  have h: "\<forall>d\<in>set [\<lparr>d_status = ''downloading'', d_downloaded_bytes = Some 512,
                       d_total_bytes = Some 2048, d_percent_str = None, d_filename = None\<rparr>,
                      \<lparr>d_status = ''downloading'', d_downloaded_bytes = Some 900,
                       d_total_bytes = None, d_percent_str = Some '' 45.3%'',
                       d_filename = None\<rparr>].
      event_in_range float_decimal d"
    using a b by simp
  from progress_in_range [OF h, where reg = Map.empty and download_id = "''1700000000000''"
      and n = 2]
  show ?thesis using a b by blast
qed

text \<open>
  Claim C3 as stated fails: after an event that reports 1500 bytes of a total of 1000,
  the job is still downloading and its progress is 150.
\<close>

theorem progress_above_100_counterexample:
  "fst (download_video float_decimal
          (\<lambda>url format.
             ([\<lparr>d_status = ''downloading'', d_downloaded_bytes = Some 1500, d_total_bytes = Some 1000,
                d_percent_str = None, d_filename = None\<rparr>], None))
          Map.empty ''https://example.com/v'' ''best'' ''1700000000000'') ''1700000000000''
     = Some \<lparr>status = ''downloading'', progress = 150, filename = [], error = None\<rparr>"
  by (simp add: download_video_def download_body_def start_job_def progress_hook_def
        update_job_def py_round1_def Let_def)

subsection \<open>Creation of the job record\<close>

lemma serve_registry:
  "download_progress (serve exists folder st reqs) = download_progress st"
proof (induction reqs arbitrary: st)
  case Nil
  then show ?case by simp
next
  case (Cons r rs)
  have "download_progress (snd (handle exists folder st r)) = download_progress st"
    by (cases r)
       (auto simp: download_def get_progress_def download_file_def Let_def split: option.splits)
  with Cons.IH [of "snd (handle exists folder st r)"] show ?case by simp
qed




subsection \<open>The completed job\<close>

text \<open>
  Claim C7, as the code has it. A \<open>finished\<close> event sets the status to \<open>completed\<close>,
  the progress to 100 and the filename to the base name of the reported path, in that one
  hook call. No request (\<^verbatim>\<open>download\<close>, \<^verbatim>\<open>get_progress\<close>, \<^verbatim>\<open>download_file\<close>)
  writes to the registry, so every \<^verbatim>\<open>get_progress\<close> returns the same record as long as
  the worker writes nothing more.
\<close>

theorem finished_sets_filename:
  "(reg download_id = Some j \<and> d_status d = ''finished'' \<and> d_filename d = Some p \<longrightarrow>
      progress_hook pfloat reg download_id d
        = (reg(download_id \<mapsto>
                 j\<lparr>status := ''completed'', progress := 100, filename := basename p\<rparr>), None)) \<and>
   download_progress (serve exists folder st reqs) = download_progress st \<and>
   fst (get_progress (serve exists folder st reqs) i) = fst (get_progress st i)"
  by (simp add: progress_hook_def update_job_def serve_registry get_progress_def)

theorem finished_sets_filename_witness:
  "progress_hook float_decimal
      [''1700000000000'' \<mapsto>
         \<lparr>status = ''downloading'', progress = 25, filename = [], error = None\<rparr>]
      ''1700000000000''
      \<lparr>d_status = ''finished'', d_downloaded_bytes = None, d_total_bytes = None,
       d_percent_str = None, d_filename = Some ''/tmp/dl/First.mp4''\<rparr>
     = ([''1700000000000'' \<mapsto>
           \<lparr>status = ''completed'', progress = 100, filename = ''First.mp4'', error = None\<rparr>],
        None)"
  using finished_sets_filename [where reg = "[''1700000000000'' \<mapsto>
         \<lparr>status = ''downloading'', progress = 25, filename = [], error = None\<rparr>]"
      and download_id = "''1700000000000''"
      and j = "\<lparr>status = ''downloading'', progress = 25, filename = [], error = None\<rparr>"
      and d = "\<lparr>d_status = ''finished'', d_downloaded_bytes = None, d_total_bytes = None,
       d_percent_str = None, d_filename = Some ''/tmp/dl/First.mp4''\<rparr>"
      and p = "''/tmp/dl/First.mp4''" and pfloat = float_decimal]
  by (simp add: basename_def)

text \<open>
  Claim C7 as stated fails: the worker does not stop at the first \<open>finished\<close> event.
  With the events \<open>finished\<close>, \<open>downloading\<close>, \<open>finished\<close> of a download of two
  files, the job is completed with filename \<open>First.mp4\<close> after the first event; the
  second event sets its progress to 10 and the third its filename to \<open>Second.mp4\<close>.
\<close>

theorem completed_job_mutated_counterexample:
  "fst (download_video float_decimal
          (\<lambda>url format.
             ([\<lparr>d_status = ''finished'', d_downloaded_bytes = None, d_total_bytes = None,
                d_percent_str = None, d_filename = Some ''/tmp/dl/First.mp4''\<rparr>], None))
          Map.empty ''https://example.com/list'' ''best'' ''1700000000000'') ''1700000000000''
     = Some \<lparr>status = ''completed'', progress = 100, filename = ''First.mp4'', error = None\<rparr> \<and>
   fst (download_video float_decimal
          (\<lambda>url format.
             ([\<lparr>d_status = ''finished'', d_downloaded_bytes = None, d_total_bytes = None,
                d_percent_str = None, d_filename = Some ''/tmp/dl/First.mp4''\<rparr>,
               \<lparr>d_status = ''downloading'', d_downloaded_bytes = Some 100, d_total_bytes = Some 1000,
                d_percent_str = None, d_filename = None\<rparr>], None))
          Map.empty ''https://example.com/list'' ''best'' ''1700000000000'') ''1700000000000''
     = Some \<lparr>status = ''completed'', progress = 10, filename = ''First.mp4'', error = None\<rparr> \<and>
   fst (download_video float_decimal
          (\<lambda>url format.
             ([\<lparr>d_status = ''finished'', d_downloaded_bytes = None, d_total_bytes = None,
                d_percent_str = None, d_filename = Some ''/tmp/dl/First.mp4''\<rparr>,
               \<lparr>d_status = ''downloading'', d_downloaded_bytes = Some 100, d_total_bytes = Some 1000,
                d_percent_str = None, d_filename = None\<rparr>,
               \<lparr>d_status = ''finished'', d_downloaded_bytes = None, d_total_bytes = None,
                d_percent_str = None, d_filename = Some ''/tmp/dl/Second.mp4''\<rparr>], None))
          Map.empty ''https://example.com/list'' ''best'' ''1700000000000'') ''1700000000000''
     = Some \<lparr>status = ''completed'', progress = 100, filename = ''Second.mp4'', error = None\<rparr>"
  by (simp add: download_video_def download_body_def start_job_def progress_hook_def
        update_job_def basename_def py_round1_def Let_def)

subsection \<open>Progress events during the transfer\<close>




subsection \<open>The format catalogue\<close>

lemma set_dedup_first: "set (dedup_first hs) = set hs"
  by (induction hs rule: dedup_first.induct) auto

lemma distinct_dedup_first: "distinct (dedup_first hs)"
  by (induction hs rule: dedup_first.induct) (auto simp: set_dedup_first)

text \<open>The loop appends the labelled first occurrences of the heights it has not seen.\<close>

lemma collect_formats_eq:
  "collect_formats fs formats seen
     = formats @
       map (\<lambda>h. \<lparr>height = h, quality = str_int h @ ''p''\<rparr>)
         (dedup_first (filter (\<lambda>h. h \<notin> seen)
            (map (\<lambda>f. the (f_height f))
               (filter (\<lambda>f. f_ext f = Some ''mp4'' \<and> f_height f \<noteq> None \<and> f_height f \<noteq> Some 0)
                  fs))))"
proof (induction fs arbitrary: formats seen)
  case Nil
  then show ?case by simp
next
  case (Cons f fs)
  show ?case
  proof (cases "f_ext f = Some ''mp4'' \<and> f_height f \<noteq> None \<and> f_height f \<noteq> Some 0")
    case False
    then show ?thesis by (auto simp: Cons.IH)
  next
    case True
    then obtain h where h: "f_height f = Some h" "h \<noteq> 0" by auto
    have m: "\<And>hs :: int list.
        filter (\<lambda>x. x \<notin> seen \<and> x \<noteq> h) hs = filter (\<lambda>x. x \<noteq> h \<and> x \<notin> seen) hs"
      by (rule filter_cong) auto
    show ?thesis
    proof (cases "h \<in> seen")
      case True
      with \<open>f_ext f = Some ''mp4'' \<and> f_height f \<noteq> None \<and> f_height f \<noteq> Some 0\<close> h
      show ?thesis by (simp add: Cons.IH)
    next
      case False
      with \<open>f_ext f = Some ''mp4'' \<and> f_height f \<noteq> None \<and> f_height f \<noteq> Some 0\<close> h
      show ?thesis by (simp add: Cons.IH m)
    qed
  qed
qed

lemma sorted_uminus_rev: "sorted (zs :: int list) \<Longrightarrow> sorted (map uminus (rev zs))"
  by (simp add: sorted_wrt_map sorted_wrt_rev)

lemma get_formats_eq_catalog_spec:
  "get_formats fs = catalog_spec (\<lambda>h. h \<noteq> None \<and> h \<noteq> Some 0) fs"
proof -
  define mk where "mk = (\<lambda>h :: int. \<lparr>height = h, quality = str_int h @ ''p''\<rparr>)"
  define D where "D = dedup_first (map (\<lambda>f. the (f_height f))
      (filter (\<lambda>f. f_ext f = Some ''mp4'' \<and> f_height f \<noteq> None \<and> f_height f \<noteq> Some 0) fs))"
  have c: "collect_formats fs [] {} = map mk D"
    by (simp add: collect_formats_eq mk_def D_def)
  have g: "get_formats fs = sort_key (\<lambda>x. - height x) (map mk D)"
    by (simp add: get_formats_def c)
  have s: "catalog_spec (\<lambda>h. h \<noteq> None \<and> h \<noteq> Some 0) fs = map mk (rev (sort D))"
    by (simp add: catalog_spec_def mk_def D_def)
  have dD: "distinct D" by (simp add: D_def distinct_dedup_first)
  have inj: "inj_on (\<lambda>x. - height x) (mk ` set D)"
    by (auto simp: inj_on_def mk_def)
  have key: "\<And>zs. map (\<lambda>x. - height x) (map mk zs) = map uminus zs"
    by (simp add: mk_def)
  have dm: "\<And>zs. distinct (map mk zs) = distinct zs"
    by (simp add: distinct_map mk_def inj_on_def)
  show ?thesis
    unfolding g s
  proof (rule map_sorted_distinct_set_unique [where f = "\<lambda>x. - height x"])
    show "inj_on (\<lambda>x. - height x)
            (set (sort_key (\<lambda>x. - height x) (map mk D)) \<union> set (map mk (rev (sort D))))"
      using inj by simp
    show "sorted (map (\<lambda>x. - height x) (sort_key (\<lambda>x. - height x) (map mk D)))"
      by (rule sorted_sort_key)
    show "distinct (map (\<lambda>x. - height x) (sort_key (\<lambda>x. - height x) (map mk D)))"
      using inj dD by (simp add: distinct_map dm mk_def inj_on_def)
    show "sorted (map (\<lambda>x. - height x) (map mk (rev (sort D))))"
      unfolding key by (rule sorted_uminus_rev) simp
    show "distinct (map (\<lambda>x. - height x) (map mk (rev (sort D))))"
      unfolding key using dD by (simp add: distinct_map)
    show "set (sort_key (\<lambda>x. - height x) (map mk D)) = set (map mk (rev (sort D)))"
      by simp
  qed
qed

lemma get_formats_heights:
  "map height (get_formats fs)
     = rev (sort (dedup_first (map (\<lambda>f. the (f_height f))
         (filter (\<lambda>f. f_ext f = Some ''mp4'' \<and> f_height f \<noteq> None \<and> f_height f \<noteq> Some 0) fs))))"
  by (simp add: get_formats_eq_catalog_spec catalog_spec_def comp_def)

lemma sorted_wrt_greater_rev_sort:
  "distinct (zs :: int list) \<Longrightarrow> sorted_wrt (>) (rev (sort zs))"
proof -
  assume "distinct zs"
  then have "sorted_wrt (<) (sort zs)"
    by (simp add: strict_sorted_iff)
  then show ?thesis
    by (simp add: sorted_wrt_rev)
qed

text \<open>
  Claim C5, as the code has it. The catalogue keeps exactly the descriptors whose
  container is mp4 and whose height is present and not zero, drops every height after
  its first occurrence, labels each height \<open>h\<close> as \<open>hp\<close> and lists the entries by
  strictly descending height; the heights 720, 1080, 720, 480, all mp4, give 1080p, 720p,
  480p.
\<close>

theorem get_formats_catalog:
  "get_formats fs = catalog_spec (\<lambda>h. h \<noteq> None \<and> h \<noteq> Some 0) fs \<and>
   set (map height (get_formats fs))
     = {h. h \<noteq> 0 \<and> (\<exists>f\<in>set fs. f_ext f = Some ''mp4'' \<and> f_height f = Some h)} \<and>
   sorted_wrt (>) (map height (get_formats fs)) \<and>
   (\<forall>e\<in>set (get_formats fs). quality e = str_int (height e) @ ''p'') \<and>
   get_formats
     [\<lparr>f_ext = Some ''mp4'', f_height = Some 720\<rparr>, \<lparr>f_ext = Some ''mp4'', f_height = Some 1080\<rparr>,
      \<lparr>f_ext = Some ''mp4'', f_height = Some 720\<rparr>, \<lparr>f_ext = Some ''mp4'', f_height = Some 480\<rparr>]
     = [\<lparr>height = 1080, quality = ''1080p''\<rparr>, \<lparr>height = 720, quality = ''720p''\<rparr>,
        \<lparr>height = 480, quality = ''480p''\<rparr>]"
proof -
  have a: "set (map height (get_formats fs))
     = {h. h \<noteq> 0 \<and> (\<exists>f\<in>set fs. f_ext f = Some ''mp4'' \<and> f_height f = Some h)}"
    unfolding get_formats_heights
    by (force simp: set_dedup_first)
  have b: "sorted_wrt (>) (map height (get_formats fs))"
    unfolding get_formats_heights
    by (rule sorted_wrt_greater_rev_sort) (rule distinct_dedup_first)
  have c: "\<forall>e\<in>set (get_formats fs). quality e = str_int (height e) @ ''p''"
    by (auto simp: get_formats_eq_catalog_spec catalog_spec_def)
  have d: "get_formats
     [\<lparr>f_ext = Some ''mp4'', f_height = Some 720\<rparr>, \<lparr>f_ext = Some ''mp4'', f_height = Some 1080\<rparr>,
      \<lparr>f_ext = Some ''mp4'', f_height = Some 720\<rparr>, \<lparr>f_ext = Some ''mp4'', f_height = Some 480\<rparr>]
     = [\<lparr>height = 1080, quality = ''1080p''\<rparr>, \<lparr>height = 720, quality = ''720p''\<rparr>,
        \<lparr>height = 480, quality = ''480p''\<rparr>]"
    by (simp add: get_formats_def str_int_eval)
  from get_formats_eq_catalog_spec a b c d show ?thesis by blast
qed

theorem get_formats_catalog_witness:
  "get_formats
     [\<lparr>f_ext = Some ''webm'', f_height = Some 2160\<rparr>, \<lparr>f_ext = Some ''mp4'', f_height = None\<rparr>,
      \<lparr>f_ext = Some ''mp4'', f_height = Some 360\<rparr>, \<lparr>f_ext = Some ''mp4'', f_height = Some 720\<rparr>,
      \<lparr>f_ext = Some ''mp4'', f_height = Some 360\<rparr>]
     = [\<lparr>height = 720, quality = ''720p''\<rparr>, \<lparr>height = 360, quality = ''360p''\<rparr>]"
proof -
  have "catalog_spec (\<lambda>h. h \<noteq> None \<and> h \<noteq> Some 0)
     [\<lparr>f_ext = Some ''webm'', f_height = Some 2160\<rparr>, \<lparr>f_ext = Some ''mp4'', f_height = None\<rparr>,
      \<lparr>f_ext = Some ''mp4'', f_height = Some 360\<rparr>, \<lparr>f_ext = Some ''mp4'', f_height = Some 720\<rparr>,
      \<lparr>f_ext = Some ''mp4'', f_height = Some 360\<rparr>]
     = [\<lparr>height = 720, quality = ''720p''\<rparr>, \<lparr>height = 360, quality = ''360p''\<rparr>]"
    by (simp add: catalog_spec_def str_int_eval)
  with get_formats_catalog
    [of "[\<lparr>f_ext = Some ''webm'', f_height = Some 2160\<rparr>, \<lparr>f_ext = Some ''mp4'', f_height = None\<rparr>,
      \<lparr>f_ext = Some ''mp4'', f_height = Some 360\<rparr>, \<lparr>f_ext = Some ''mp4'', f_height = Some 720\<rparr>,
      \<lparr>f_ext = Some ''mp4'', f_height = Some 360\<rparr>]"]
  show ?thesis by simp
qed

text \<open>
  Claim C5 as stated fails: a descriptor of container mp4 whose height is present and
  zero is dropped, since \<^verbatim>\<open>f.get('height')\<close> is then false, while the catalogue in the
  claim's words keeps it as \<open>0p\<close>.
\<close>

theorem zero_height_dropped_counterexample:
  "get_formats [\<lparr>f_ext = Some ''mp4'', f_height = Some 0\<rparr>] = [] \<and>
   catalog_spec (\<lambda>h. h \<noteq> None) [\<lparr>f_ext = Some ''mp4'', f_height = Some 0\<rparr>]
     = [\<lparr>height = 0, quality = ''0p''\<rparr>]"
  by (simp add: get_formats_def catalog_spec_def str_int_eval)

end
